theory Spec2Isabelle
  imports Complex_Main "HOL-Library.Word"
begin

section \<open>The ROVIO health monitor (include/rovio/HealthMonitor.hpp)\<close>

text \<open>
  The class \<open>RovioHealthMonitor\<close> is embedded as a record holding its parameters and its
  state, and its method \<open>shouldResetEstimator\<close> as a function from the two arguments and
  the monitor to the returned flag, the lines written to \<open>std::cout\<close> and the updated
  monitor.

  Numbers. A finite \<open>double\<close> or \<open>float\<close> value is the real number it denotes. The
  thresholds are \<open>double\<close> members and the method only compares them, which is exact.
  The method has two \<open>float\<close> operations that round, and both are modelled with IEEE 754
  binary32 rounding (to nearest, ties to even, overflow to infinity): line 94 narrows the
  \<open>double\<close> norm to \<open>float\<close>, and line 115 subtracts two \<open>float\<close> medians. The \<open>double\<close>
  value that Eigen's \<open>norm()\<close> returns is taken to be the exact Euclidean norm, and NaN
  inputs are outside the model. The two
  \<open>int\<close> members are 32-bit words read as two's complement with \<open>sint\<close>; \<open>++\<close> on the
  counter is \<open>+ 1\<close> on the word, so that incrementing \<open>INT_MAX\<close> wraps around to
  \<open>INT_MIN\<close> (C++ leaves that overflow undefined; the wrap-around is what the usual
  targets compute). Every theorem below whose truth depends on the counter not overflowing
  says so in a hypothesis.
\<close>

subsection \<open>Data\<close>

type_synonym vec3 = "real \<times> real \<times> real"

text \<open>
  Modelled from the spec: \<open>kindr::RotationQuaternionPD\<close> is declared outside this file; the
  spec calls it a unit quaternion. It is kept as its four coefficients, and \<open>setIdentity\<close>
  gives the quaternion with real part 1 and zero imaginary part.
\<close>

record quaternion =
  qw :: real
  qx :: real
  qy :: real
  qz :: real

definition quaternion_identity :: quaternion where
  "quaternion_identity = \<lparr>qw = 1, qx = 0, qy = 0, qz = 0\<rparr>"

text \<open>
  Modelled from the spec: \<open>StandardOutput\<close> (rovio/CoordinateTransform/RovioOutput.hpp) is
  declared outside this file. The snapshot carries the body-frame velocity \<open>BvB\<close>, the
  world-frame position \<open>WrWB\<close> and the world-to-body orientation \<open>qBW\<close>; only these three
  accessors are called by the monitor.
\<close>

record StandardOutput =
  BvB :: vec3
  WrWB :: vec3
  qBW :: quaternion

text \<open>Eigen's \<open>norm()\<close> of a 3-vector: the Euclidean norm.\<close>

definition norm3 :: "vec3 \<Rightarrow> real" where
  "norm3 v = (case v of (x, y, z) \<Rightarrow> sqrt (x * x + y * y + z * z))"

subsection \<open>Single precision\<close>

text \<open>
  A \<open>float\<close> result is a finite binary32 value or an infinity. \<open>to_float32\<close> rounds a real
  number to binary32: the spacing of the binary32 values around \<open>x\<close> is
  \<open>2 ^ (e - 23)\<close> where \<open>2 ^ e \<le> \<bar>x\<bar> < 2 ^ (e + 1)\<close>, with \<open>e\<close> not below \<open>- 126\<close>
  (the subnormal range), and a result of magnitude \<open>2 ^ 128\<close> is the infinity.
\<close>

datatype float32 = Finite real | PlusInf | MinusInf

definition round_half_even :: "real \<Rightarrow> int" where
  "round_half_even q =
     (let f = \<lfloor>q\<rfloor>; d = q - of_int f
      in if d < 1 / 2 then f else if 1 / 2 < d then f + 1 else if even f then f else f + 1)"

definition binade :: "real \<Rightarrow> int" where
  "binade x = max \<lfloor>log 2 \<bar>x\<bar>\<rfloor> (- 126)"

definition ulp32 :: "real \<Rightarrow> real" where
  "ulp32 x = 2 powr of_int (binade x - 23)"

definition nearest32 :: "real \<Rightarrow> real" where
  "nearest32 x = (if x = 0 then 0 else of_int (round_half_even (x / ulp32 x)) * ulp32 x)"

definition to_float32 :: "real \<Rightarrow> float32" where
  "to_float32 x =
     (let r = nearest32 x
      in if 2 ^ 128 \<le> r then PlusInf else if r \<le> - (2 ^ 128) then MinusInf else Finite r)"

text \<open>\<open>float - float\<close> on two finite values, and \<open>std::abs\<close> on a \<open>float\<close>.\<close>

definition float_sub :: "real \<Rightarrow> real \<Rightarrow> float32" where
  "float_sub a b = to_float32 (a - b)"

fun float_abs :: "float32 \<Rightarrow> float32" where
  "float_abs (Finite x) = Finite \<bar>x\<bar>"
| "float_abs PlusInf = PlusInf"
| "float_abs MinusInf = PlusInf"

text \<open>
  \<open>float > double\<close> and \<open>float < double\<close>: the \<open>float\<close> operand is promoted to \<open>double\<close>,
  which does not change its value, and the comparison is exact.
\<close>

fun float_gt :: "float32 \<Rightarrow> real \<Rightarrow> bool" where
  "float_gt (Finite x) t = (t < x)"
| "float_gt PlusInf t = True"
| "float_gt MinusInf t = False"

fun float_lt :: "float32 \<Rightarrow> real \<Rightarrow> bool" where
  "float_lt (Finite x) t = (x < t)"
| "float_lt PlusInf t = False"
| "float_lt MinusInf t = True"

text \<open>
  Line 94, \<open>const float BvB_norm = imu_output.BvB().norm()\<close>: the norm narrowed to
  \<open>float\<close>.
\<close>

definition BvB_norm :: "StandardOutput \<Rightarrow> float32" where
  "BvB_norm imu_output = to_float32 (norm3 (BvB imu_output))"

text \<open>
  The private struct \<open>RovioFailsafePose\<close> and its constructor (lines 136--146). The median
  member is a \<open>float\<close>; it only ever holds 0 or one of the samples.
\<close>

record RovioFailsafePose =
  failsafe_WrWB :: vec3
  failsafe_qBW :: quaternion
  feature_pixel_cov_area_median :: real

definition RovioFailsafePose_init :: RovioFailsafePose where
  "RovioFailsafePose_init =
     \<lparr>failsafe_WrWB = (0, 0, 0),
      failsafe_qBW = quaternion_identity,
      feature_pixel_cov_area_median = 0\<rparr>"

text \<open>The members of \<open>RovioHealthMonitor\<close> (lines 152--167), without the two ROS handles.\<close>

record RovioHealthMonitor =
  enabled :: bool
  velocity_to_consider_static :: real
  max_subsequent_unhealthy_updates :: "32 word"
  healthy_feature_pixel_cov_area :: real
  healthy_feature_pixel_cov_area_increment :: real
  unhealthy_feature_pixel_cov_area :: real
  unhealthy_velocity :: real
  last_safe_pose :: RovioFailsafePose
  num_subsequent_unhealthy_updates :: "32 word"

text \<open>
  The parameter server read by the constructor: each key is present or absent, and
  \<open>nh_private_.param(key, var, default)\<close> stores the value when the key is present and
  the default otherwise.
\<close>

record ros_params =
  health_monitor_enabled :: "bool option"
  p_velocity_to_consider_static :: "real option"
  p_max_subsequent_unhealthy_updates :: "32 word option"
  p_healthy_feature_pixel_cov_area :: "real option"
  p_healthy_feature_pixel_cov_area_increment :: "real option"
  p_unhealthy_feature_pixel_cov_area :: "real option"
  p_unhealthy_velocity :: "real option"

definition param :: "'a option \<Rightarrow> 'a \<Rightarrow> 'a" where
  "param v dflt = (case v of Some x \<Rightarrow> x | None \<Rightarrow> dflt)"

definition no_params :: ros_params where
  "no_params =
     \<lparr>health_monitor_enabled = None,
      p_velocity_to_consider_static = None,
      p_max_subsequent_unhealthy_updates = None,
      p_healthy_feature_pixel_cov_area = None,
      p_healthy_feature_pixel_cov_area_increment = None,
      p_unhealthy_feature_pixel_cov_area = None,
      p_unhealthy_velocity = None\<rparr>"

text \<open>The constructor (lines 46--76).\<close>

definition RovioHealthMonitor_new :: "ros_params \<Rightarrow> RovioHealthMonitor" where
  "RovioHealthMonitor_new ps =
     \<lparr>enabled = param (health_monitor_enabled ps) False,
      velocity_to_consider_static = param (p_velocity_to_consider_static ps) 0.1,
      max_subsequent_unhealthy_updates = param (p_max_subsequent_unhealthy_updates ps) 2,
      healthy_feature_pixel_cov_area = param (p_healthy_feature_pixel_cov_area ps) 1.0,
      healthy_feature_pixel_cov_area_increment =
        param (p_healthy_feature_pixel_cov_area_increment ps) 0.3,
      unhealthy_feature_pixel_cov_area = param (p_unhealthy_feature_pixel_cov_area ps) 5.0,
      unhealthy_velocity = param (p_unhealthy_velocity ps) 6.0,
      last_safe_pose = RovioFailsafePose_init,
      num_subsequent_unhealthy_updates = 0\<rparr>"

subsection \<open>The median (lines 84--92)\<close>

text \<open>
  \<open>std::nth_element(first, nth, last)\<close> rearranges the range so that the element at
  \<open>nth\<close> is the one that would stand there if the range were sorted; the source reads
  only that element. The model sorts the copy, which is one of the permitted
  rearrangements and has the same element at \<open>nth\<close> as every other one. The samples are
  the finite \<open>float\<close> values of the \<open>std::vector<float>\<close>, and so is the median.
\<close>

definition nth_element :: "real list \<Rightarrow> nat \<Rightarrow> real list" where
  "nth_element xs n = sort xs"

definition median_of :: "real list \<Rightarrow> real" where
  "median_of feature_pixel_cov_area_in =
     (let feature_pixel_cov_area = feature_pixel_cov_area_in
      in if feature_pixel_cov_area \<noteq> [] then
           let middle_index = length feature_pixel_cov_area div 2
           in nth_element feature_pixel_cov_area middle_index ! middle_index
         else 0)"

text \<open>
  The median as the specification words it, for comparison with \<open>median_of\<close>: 0 for an
  empty collection, otherwise the middle element of the sorted order, the lower of the two
  middle elements when the size is even.
\<close>

definition lower_median :: "real list \<Rightarrow> real" where
  "lower_median xs = (if xs = [] then 0 else sort xs ! ((length xs - 1) div 2))"

subsection \<open>The decision (lines 82--127)\<close>

text \<open>The two messages the method writes to \<open>std::cout\<close>, with the values they print.\<close>

datatype message =
  Fault_counter "32 word" "32 word"
| Will_reset float32 real real real

record outcome =
  result :: bool
  printed :: "message list"
  monitor :: RovioHealthMonitor

definition shouldResetEstimator ::
  "real list \<Rightarrow> StandardOutput \<Rightarrow> RovioHealthMonitor \<Rightarrow> outcome" where
  "shouldResetEstimator feature_pixel_cov_area_in imu_output m =
     (let median = median_of feature_pixel_cov_area_in;
          speed = BvB_norm imu_output
      in if float_gt speed (velocity_to_consider_static m) \<and>
            (float_gt speed (unhealthy_velocity m) \<or>
             median > unhealthy_feature_pixel_cov_area m)
         then
           let m1 = m\<lparr>num_subsequent_unhealthy_updates :=
                       num_subsequent_unhealthy_updates m + 1\<rparr>;
               out1 = [Fault_counter (num_subsequent_unhealthy_updates m1)
                         (max_subsequent_unhealthy_updates m1)]
           in if sint (num_subsequent_unhealthy_updates m1) >
                 sint (max_subsequent_unhealthy_updates m1)
              then \<lparr>result = True,
                    printed = out1 @ [Will_reset speed (unhealthy_velocity m1) median
                                        (unhealthy_feature_pixel_cov_area m1)],
                    monitor = m1\<rparr>
              else \<lparr>result = False, printed = out1, monitor = m1\<rparr>
         else
           let m1 =
                 (if median < healthy_feature_pixel_cov_area m then
                    if float_lt
                         (float_abs
                            (float_sub median (feature_pixel_cov_area_median (last_safe_pose m))))
                         (healthy_feature_pixel_cov_area_increment m)
                    then m\<lparr>last_safe_pose :=
                             \<lparr>failsafe_WrWB = WrWB imu_output,
                              failsafe_qBW = qBW imu_output,
                              feature_pixel_cov_area_median = median\<rparr>\<rparr>
                    else m
                  else m)
           in \<lparr>result = False, printed = [],
               monitor = m1\<lparr>num_subsequent_unhealthy_updates := 0\<rparr>\<rparr>)"

text \<open>The accessors (lines 79, 129--133).\<close>

definition get_failsafe_WrWB :: "RovioHealthMonitor \<Rightarrow> vec3" where
  "get_failsafe_WrWB m = failsafe_WrWB (last_safe_pose m)"

definition get_failsafe_qBW :: "RovioHealthMonitor \<Rightarrow> quaternion" where
  "get_failsafe_qBW m = failsafe_qBW (last_safe_pose m)"

subsection \<open>Sequences of cycles\<close>

text \<open>
  The host calls the method once per estimator cycle. \<open>cycles\<close> feeds a list of cycles,
  each the pair of arguments of one call, and collects the outcomes in call order.
\<close>

type_synonym cycle = "real list \<times> StandardOutput"

fun cycles :: "RovioHealthMonitor \<Rightarrow> cycle list \<Rightarrow> outcome list" where
  "cycles m [] = []"
| "cycles m (c # cs) =
     (let r = shouldResetEstimator (fst c) (snd c) m in r # cycles (monitor r) cs)"

fun final_monitor :: "RovioHealthMonitor \<Rightarrow> cycle list \<Rightarrow> RovioHealthMonitor" where
  "final_monitor m [] = m"
| "final_monitor m (c # cs) =
     final_monitor (monitor (shouldResetEstimator (fst c) (snd c) m)) cs"

text \<open>
  A cycle is classified unhealthy when the call takes the branch of line 96, which is the
  branch that writes the fault counter to \<open>std::cout\<close>; it depends on the thresholds of
  the monitor only.
\<close>

definition unhealthy :: "RovioHealthMonitor \<Rightarrow> cycle \<Rightarrow> bool" where
  "unhealthy m c = (printed (shouldResetEstimator (fst c) (snd c) m) \<noteq> [])"

section \<open>Binary32 rounding\<close>

lemma round_half_even_int [simp]: "round_half_even (of_int n) = n"
  by (simp add: round_half_even_def)

lemma binade_eq:
  assumes "2 powr of_int e \<le> \<bar>x\<bar>" and "\<bar>x\<bar> < 2 powr of_int (e + 1)" and "- 126 \<le> e"
  shows "binade x = e"
proof -
  have "0 < (2::real) powr of_int e" by simp
  then have "0 < \<bar>x\<bar>" using assms(1) by linarith
  then have "\<lfloor>log 2 \<bar>x\<bar>\<rfloor> = e"
    using assms(1,2) by (simp add: floor_log_eq_powr_iff)
  then show ?thesis using assms(3) by (simp add: binade_def)
qed

lemma nearest32_eval:
  assumes "2 powr of_int e \<le> \<bar>x\<bar>" and "\<bar>x\<bar> < 2 powr of_int (e + 1)" and "- 126 \<le> e"
  shows "nearest32 x = of_int (round_half_even (x / 2 powr of_int (e - 23))) * 2 powr of_int (e - 23)"
proof -
  have "0 < (2::real) powr of_int e" by simp
  then have "x \<noteq> 0" using assms(1) by auto
  then show ?thesis using binade_eq [OF assms] by (simp add: nearest32_def ulp32_def)
qed

lemma nearest32_representable:
  assumes x: "x = of_int n * 2 powr of_int k" and n: "\<bar>n\<bar> < 2 ^ 24" and k: "- 149 \<le> k"
  shows "nearest32 x = x"
proof (cases "n = 0")
  case True
  then show ?thesis using x by (simp add: nearest32_def)
next
  case False
  then have n0: "0 < \<bar>real_of_int n\<bar>" by simp
  have pk: "0 < (2::real) powr of_int k" by simp
  have ax: "\<bar>x\<bar> = \<bar>real_of_int n\<bar> * 2 powr of_int k"
    using x by (simp add: abs_mult)
  then have xpos: "0 < \<bar>x\<bar>" using n0 pk by simp
  have "\<bar>real_of_int n\<bar> < 2 ^ 24" using n by (metis of_int_abs of_int_less_numeral_power_cancel_iff)
  then have "\<bar>x\<bar> < 2 ^ 24 * 2 powr of_int k" using ax pk by simp
  also have "\<dots> = 2 powr of_int (k + 24)" by (simp add: powr_add)
  finally have "log 2 \<bar>x\<bar> < of_int (k + 24)"
    using xpos by (simp add: log_less_iff)
  then have fl: "\<lfloor>log 2 \<bar>x\<bar>\<rfloor> \<le> k + 23" by (simp add: floor_le_iff)
  define j where "j = k + 23 - binade x"
  have j: "0 \<le> j" using fl k by (simp add: j_def binade_def)
  have "x / ulp32 x = of_int n * (2 powr of_int k / 2 powr of_int (binade x - 23))"
    using x by (simp add: ulp32_def)
  also have "2 powr of_int k / 2 powr of_int (binade x - 23) = (2::real) powr of_int j"
    by (simp add: j_def powr_diff [symmetric] algebra_simps)
  also have "\<dots> = 2 ^ nat j" using j by (simp add: powr_int)
  finally have q: "x / ulp32 x = of_int (n * 2 ^ nat j)" by simp
  have u: "ulp32 x \<noteq> 0" by (simp add: ulp32_def)
  have "nearest32 x = of_int (round_half_even (x / ulp32 x)) * ulp32 x"
    using xpos by (auto simp: nearest32_def)
  also have "\<dots> = (x / ulp32 x) * ulp32 x" by (simp only: q round_half_even_int)
  also have "\<dots> = x" using u by simp
  finally show ?thesis .
qed

lemma to_float32_dyadic:
  assumes "\<bar>n\<bar> < 2 ^ 24" and "k \<le> 149"
  shows "to_float32 (of_int n / 2 ^ k) = Finite (of_int n / 2 ^ k)"
proof -
  have "real_of_int n / 2 ^ k = of_int n * 2 powr of_int (- int k)"
    by (simp add: powr_minus_divide powr_realpow)
  then have r: "nearest32 (of_int n / 2 ^ k) = of_int n / 2 ^ k"
    using assms by (intro nearest32_representable [where n = n and k = "- int k"]) simp_all
  have "\<bar>real_of_int n\<bar> < 2 ^ 24" using assms(1) by (metis of_int_abs of_int_less_numeral_power_cancel_iff)
  moreover have "\<bar>real_of_int n / 2 ^ k\<bar> \<le> \<bar>real_of_int n\<bar>"
  proof -
    have "(1::real) \<le> 2 ^ k" by simp
    then have "\<bar>real_of_int n\<bar> * 1 \<le> \<bar>real_of_int n\<bar> * 2 ^ k"
      by (intro mult_left_mono) simp_all
    then show ?thesis by (simp add: abs_divide field_simps)
  qed
  moreover have "(2::real) ^ 24 < 2 ^ 128" by simp
  ultimately have "\<bar>real_of_int n / 2 ^ k\<bar> < 2 ^ 128" by linarith
  then have "\<not> 2 ^ 128 \<le> real_of_int n / 2 ^ k" and "\<not> real_of_int n / 2 ^ k \<le> - (2 ^ 128)"
    by linarith+
  then show ?thesis unfolding to_float32_def r Let_def by (simp only: if_False)
qed

lemma to_float32_numeral [simp]:
  "(numeral w :: int) < 16777216 \<Longrightarrow> to_float32 (numeral w) = Finite (numeral w)"
  using to_float32_dyadic [of "numeral w" 0] by simp

lemma to_float32_0 [simp]: "to_float32 0 = Finite 0"
  using to_float32_dyadic [of 0 0] by simp

lemma to_float32_1 [simp]: "to_float32 1 = Finite 1"
  using to_float32_dyadic [of 1 0] by simp

lemma float_sub_0 [simp]: "float_sub a 0 = to_float32 a"
  by (simp add: float_sub_def)

lemma float_sub_self [simp]: "float_sub a a = Finite 0"
  by (simp add: float_sub_def)



lemma to_float32_quarter_less: "to_float32 (1 / 4 - 1 / 2 ^ 28) = Finite (1 / 4)"
proof -
  have "nearest32 (1 / 4 - 1 / 2 ^ 28) =
      of_int (round_half_even ((1 / 4 - 1 / 2 ^ 28) / 2 powr of_int (- 3 - 23))) *
        2 powr of_int (- 3 - 23)"
    by (rule nearest32_eval) (simp_all add: powr_neg_numeral)
  also have "\<dots> = 1 / 4"
    by (simp add: powr_neg_numeral round_half_even_def Let_def)
  finally show ?thesis by (simp add: to_float32_def)
qed

lemma to_float32_minus_quarter_less: "to_float32 (1 / 2 ^ 28 - 1 / 4) = Finite (- (1 / 4))"
proof -
  have "nearest32 (1 / 2 ^ 28 - 1 / 4) =
      of_int (round_half_even ((1 / 2 ^ 28 - 1 / 4) / 2 powr of_int (- 3 - 23))) *
        2 powr of_int (- 3 - 23)"
    by (rule nearest32_eval) (simp_all add: powr_neg_numeral)
  also have "\<dots> = - (1 / 4)"
    by (simp add: powr_neg_numeral round_half_even_def Let_def)
  finally show ?thesis by (simp add: to_float32_def)
qed

section \<open>The median\<close>

lemma median_of_nth: "xs \<noteq> [] \<Longrightarrow> median_of xs = sort xs ! (length xs div 2)"
  by (simp add: median_of_def nth_element_def)

lemma count_below_sorted:
  assumes "sorted ys" and "i < length ys"
  shows "length (filter (\<lambda>x. x < ys ! i) ys) \<le> i"
proof -
  have "filter (\<lambda>x. x < ys ! i) (drop i ys) = []"
  proof -
    have "\<forall>x\<in>set (drop i ys). \<not> x < ys ! i"
    proof
      fix x assume "x \<in> set (drop i ys)"
      then obtain j where "j < length (drop i ys)" and "x = drop i ys ! j"
        by (metis in_set_conv_nth)
      then have "x = ys ! (i + j)" and "i + j < length ys" by simp_all
      then have "ys ! i \<le> x" using assms(1) by (simp add: sorted_nth_mono)
      then show "\<not> x < ys ! i" by simp
    qed
    then show ?thesis by (simp add: filter_empty_conv)
  qed
  then have "filter (\<lambda>x. x < ys ! i) ys = filter (\<lambda>x. x < ys ! i) (take i ys)"
    by (metis append_Nil2 append_take_drop_id filter_append)
  then have "length (filter (\<lambda>x. x < ys ! i) ys) \<le> length (take i ys)"
    by (metis length_filter_le)
  then show ?thesis by simp
qed

lemma count_upto_sorted:
  assumes "sorted ys" and "i < length ys"
  shows "i < length (filter (\<lambda>x. x \<le> ys ! i) ys)"
proof -
  have "\<forall>x\<in>set (take (Suc i) ys). x \<le> ys ! i"
  proof
    fix x assume "x \<in> set (take (Suc i) ys)"
    then obtain j where "j < length (take (Suc i) ys)" and "x = take (Suc i) ys ! j"
      by (metis in_set_conv_nth)
    then have "x = ys ! j" and "j \<le> i" by simp_all
    then show "x \<le> ys ! i" using assms by (simp add: sorted_nth_mono)
  qed
  then have "filter (\<lambda>x. x \<le> ys ! i) (take (Suc i) ys) = take (Suc i) ys"
    by (simp add: filter_id_conv)
  moreover have "filter (\<lambda>x. x \<le> ys ! i) ys =
      filter (\<lambda>x. x \<le> ys ! i) (take (Suc i) ys) @ filter (\<lambda>x. x \<le> ys ! i) (drop (Suc i) ys)"
    by (metis append_take_drop_id filter_append)
  ultimately have "length (filter (\<lambda>x. x \<le> ys ! i) ys) \<ge> length (take (Suc i) ys)"
    by simp
  then show ?thesis using assms(2) by simp
qed

lemma length_filter_sort: "length (filter P (sort xs)) = length (filter P xs)"
  by (simp add: filter_sort)

section \<open>Single calls\<close>

lemma unhealthy_iff:
  "unhealthy m c \<longleftrightarrow>
     float_gt (BvB_norm (snd c)) (velocity_to_consider_static m) \<and>
     (float_gt (BvB_norm (snd c)) (unhealthy_velocity m) \<or>
      median_of (fst c) > unhealthy_feature_pixel_cov_area m)"
  by (simp add: unhealthy_def shouldResetEstimator_def Let_def)

lemma step_unhealthy:
  assumes "unhealthy m c"
  shows "monitor (shouldResetEstimator (fst c) (snd c) m) =
           m\<lparr>num_subsequent_unhealthy_updates := num_subsequent_unhealthy_updates m + 1\<rparr>"
    and "result (shouldResetEstimator (fst c) (snd c) m) =
           (sint (num_subsequent_unhealthy_updates m + 1) > sint (max_subsequent_unhealthy_updates m))"
  using assms by (simp_all add: unhealthy_iff shouldResetEstimator_def Let_def)

lemma step_healthy:
  assumes "\<not> unhealthy m c"
  shows "num_subsequent_unhealthy_updates (monitor (shouldResetEstimator (fst c) (snd c) m)) = 0"
    and "\<not> result (shouldResetEstimator (fst c) (snd c) m)"
    and "last_safe_pose (monitor (shouldResetEstimator (fst c) (snd c) m)) =
          (if median_of (fst c) < healthy_feature_pixel_cov_area m \<and>
              float_lt
                (float_abs (float_sub (median_of (fst c))
                   (feature_pixel_cov_area_median (last_safe_pose m))))
                (healthy_feature_pixel_cov_area_increment m)
           then \<lparr>failsafe_WrWB = WrWB (snd c), failsafe_qBW = qBW (snd c),
                  feature_pixel_cov_area_median = median_of (fst c)\<rparr>
           else last_safe_pose m)"
  using assms unfolding unhealthy_iff by (auto simp: shouldResetEstimator_def Let_def)

lemma thresholds_kept:
  "velocity_to_consider_static (monitor (shouldResetEstimator xs out m)) = velocity_to_consider_static m"
  "max_subsequent_unhealthy_updates (monitor (shouldResetEstimator xs out m)) = max_subsequent_unhealthy_updates m"
  "healthy_feature_pixel_cov_area (monitor (shouldResetEstimator xs out m)) = healthy_feature_pixel_cov_area m"
  "healthy_feature_pixel_cov_area_increment (monitor (shouldResetEstimator xs out m)) = healthy_feature_pixel_cov_area_increment m"
  "unhealthy_feature_pixel_cov_area (monitor (shouldResetEstimator xs out m)) = unhealthy_feature_pixel_cov_area m"
  "unhealthy_velocity (monitor (shouldResetEstimator xs out m)) = unhealthy_velocity m"
  "enabled (monitor (shouldResetEstimator xs out m)) = enabled m"
  by (simp_all add: shouldResetEstimator_def Let_def)

lemma unhealthy_step [simp]:
  "unhealthy (monitor (shouldResetEstimator xs out m)) c = unhealthy m c"
  by (simp add: unhealthy_iff thresholds_kept)

lemma norm3_x: "norm3 (x, 0, 0) = \<bar>x\<bar>"
  by (simp add: norm3_def)

lemma BvB_norm_x: "BvB_norm \<lparr>BvB = (x, 0, 0), WrWB = p, qBW = q\<rparr> = to_float32 \<bar>x\<bar>"
  by (simp add: BvB_norm_def norm3_x)

lemma result_true:
  assumes "result (shouldResetEstimator xs out m)"
  shows "unhealthy m (xs, out)"
    and "sint (max_subsequent_unhealthy_updates m) < sint (num_subsequent_unhealthy_updates m + 1)"
  using assms unfolding unhealthy_def
  by (auto simp: shouldResetEstimator_def Let_def split: if_splits)

lemma step_enabled:
  "shouldResetEstimator xs out (m\<lparr>enabled := b\<rparr>) =
     (shouldResetEstimator xs out m)
       \<lparr>monitor := (monitor (shouldResetEstimator xs out m))\<lparr>enabled := b\<rparr>\<rparr>"
  by (simp add: shouldResetEstimator_def Let_def)


lemma new_no_params:
  "velocity_to_consider_static (RovioHealthMonitor_new no_params) = 1 / 10"
  "max_subsequent_unhealthy_updates (RovioHealthMonitor_new no_params) = 2"
  "healthy_feature_pixel_cov_area (RovioHealthMonitor_new no_params) = 1"
  "healthy_feature_pixel_cov_area_increment (RovioHealthMonitor_new no_params) = 3 / 10"
  "unhealthy_feature_pixel_cov_area (RovioHealthMonitor_new no_params) = 5"
  "unhealthy_velocity (RovioHealthMonitor_new no_params) = 6"
  "last_safe_pose (RovioHealthMonitor_new no_params) = RovioFailsafePose_init"
  "num_subsequent_unhealthy_updates (RovioHealthMonitor_new no_params) = 0"
  by (simp_all add: RovioHealthMonitor_new_def no_params_def param_def)

lemma median_of_single [simp]: "median_of [x] = x"
  by (simp add: median_of_def nth_element_def)

lemma healthy_at_rest:
  "0 \<le> velocity_to_consider_static m \<Longrightarrow>
   \<not> unhealthy m (xs, \<lparr>BvB = (0, 0, 0), WrWB = p, qBW = q\<rparr>)"
  by (simp add: unhealthy_iff BvB_norm_x)

section \<open>Sequences of calls\<close>

lemma length_cycles [simp]: "length (cycles m cs) = length cs"
  by (induction cs arbitrary: m) (simp_all add: Let_def)

lemma cycles_nth:
  "i < length cs \<Longrightarrow>
   cycles m cs ! i =
     shouldResetEstimator (fst (cs ! i)) (snd (cs ! i)) (final_monitor m (take i cs))"
proof (induction cs arbitrary: m i)
  case Nil
  then show ?case by simp
next
  case (Cons c cs)
  show ?case
  proof (cases i)
    case 0
    then show ?thesis by (simp add: Let_def)
  next
    case (Suc j)
    with Cons.prems have "j < length cs" by simp
    from Cons.IH [OF this] Suc show ?thesis by (simp add: Let_def)
  qed
qed


lemma unhealthy_final [simp]: "unhealthy (final_monitor m cs) c = unhealthy m c"
  by (induction cs arbitrary: m) simp_all

lemma max_final [simp]:
  "max_subsequent_unhealthy_updates (final_monitor m cs) = max_subsequent_unhealthy_updates m"
  by (induction cs arbitrary: m) (simp_all add: thresholds_kept)

lemma final_unhealthy:
  "\<forall>c\<in>set cs. unhealthy m c \<Longrightarrow>
   final_monitor m cs =
     m\<lparr>num_subsequent_unhealthy_updates :=
         num_subsequent_unhealthy_updates m + of_nat (length cs)\<rparr>"
proof (induction cs arbitrary: m)
  case Nil
  then show ?case by simp
next
  case (Cons c cs)
  let ?m1 = "monitor (shouldResetEstimator (fst c) (snd c) m)"
  from Cons.prems have c: "unhealthy m c" and rest: "\<forall>d\<in>set cs. unhealthy ?m1 d"
    by simp_all
  from Cons.IH [OF rest] step_unhealthy(1) [OF c] show ?case
    by (simp add: add.assoc add.commute)
qed

lemma nth_unhealthy:
  assumes "\<forall>c\<in>set cs. unhealthy m c" and "i < length cs"
  shows "result (cycles m cs ! i) =
           (sint (num_subsequent_unhealthy_updates m + of_nat (Suc i)) >
            sint (max_subsequent_unhealthy_updates m))"
proof -
  have t: "\<forall>c\<in>set (take i cs). unhealthy m c"
    using assms(1) by (meson in_set_takeD)
  have u: "unhealthy (final_monitor m (take i cs)) (cs ! i)"
    using assms by simp
  show ?thesis
    using assms(2) step_unhealthy(2) [OF u] final_unhealthy [OF t]
    by (simp add: cycles_nth min_def ac_simps)
qed

lemma sint_of_nat_32:
  "n < 2147483648 \<Longrightarrow> sint (of_nat n :: 32 word) = int n"
  by (simp add: signed_of_nat signed_take_bit_int_eq_self)

lemma sint_le_max: "sint (x :: 32 word) \<le> 2147483647"
  using sint_lt [of x] by simp

lemma sint_add_nat_32:
  assumes "sint (x :: 32 word) + int n \<le> 2147483647"
  shows "sint (x + of_nat n) = sint x + int n"
proof -
  have lo: "- 2147483648 \<le> sint x" using sint_ge [of x] by simp
  have "x + of_nat n = word_of_int (sint x + int n)" by simp
  then have "sint (x + of_nat n) = signed_take_bit 31 (sint x + int n)"
    by (simp only: sint_sbintrunc') simp
  also have "\<dots> = sint x + int n"
    using lo assms by (simp add: signed_take_bit_int_eq_self)
  finally show ?thesis .
qed

lemma enabled_kept [simp]: "enabled (final_monitor m cs) = enabled m"
  by (induction cs arbitrary: m) (simp_all add: thresholds_kept)


lemma retention_chain:
  assumes "\<forall>c\<in>set (c0 # cs). \<not> unhealthy m c \<and>
             median_of (fst c) < healthy_feature_pixel_cov_area m"
    and "float_lt
           (float_abs (float_sub (median_of (fst c0))
              (feature_pixel_cov_area_median (last_safe_pose m))))
           (healthy_feature_pixel_cov_area_increment m)"
    and "\<forall>i. i < length cs \<longrightarrow>
           float_lt
             (float_abs (float_sub (median_of (fst (cs ! i)))
                (median_of (fst ((c0 # cs) ! i)))))
             (healthy_feature_pixel_cov_area_increment m)"
  shows "last_safe_pose (final_monitor m (c0 # cs)) =
           \<lparr>failsafe_WrWB = WrWB (snd (last (c0 # cs))),
            failsafe_qBW = qBW (snd (last (c0 # cs))),
            feature_pixel_cov_area_median = median_of (fst (last (c0 # cs)))\<rparr>"
  using assms
proof (induction cs arbitrary: m c0)
  case Nil
  then have h: "\<not> unhealthy m c0" by simp
  show ?case using step_healthy(3) [OF h] Nil.prems(1,2) by simp
next
  case (Cons c1 cs)
  let ?m1 = "monitor (shouldResetEstimator (fst c0) (snd c0) m)"
  from Cons.prems(1) have h: "\<not> unhealthy m c0" by simp
  have pose: "last_safe_pose ?m1 =
      \<lparr>failsafe_WrWB = WrWB (snd c0), failsafe_qBW = qBW (snd c0),
       feature_pixel_cov_area_median = median_of (fst c0)\<rparr>"
    using step_healthy(3) [OF h] Cons.prems(1,2) by simp
  have a: "\<forall>c\<in>set (c1 # cs). \<not> unhealthy ?m1 c \<and>
             median_of (fst c) < healthy_feature_pixel_cov_area ?m1"
    using Cons.prems(1) by (simp add: thresholds_kept)
  have b: "float_lt
             (float_abs (float_sub (median_of (fst c1))
                (feature_pixel_cov_area_median (last_safe_pose ?m1))))
             (healthy_feature_pixel_cov_area_increment ?m1)"
    using Cons.prems(3) [rule_format, of 0] pose by (simp add: thresholds_kept)
  have c: "\<forall>i. i < length cs \<longrightarrow>
             float_lt
               (float_abs (float_sub (median_of (fst (cs ! i)))
                  (median_of (fst ((c1 # cs) ! i)))))
               (healthy_feature_pixel_cov_area_increment ?m1)"
  proof (intro allI impI)
    fix i assume "i < length cs"
    then show "float_lt
               (float_abs (float_sub (median_of (fst (cs ! i)))
                  (median_of (fst ((c1 # cs) ! i)))))
               (healthy_feature_pixel_cov_area_increment ?m1)"
      using Cons.prems(3) [rule_format, of "Suc i"] by (simp add: thresholds_kept)
  qed
  show ?case using Cons.IH [OF a b c] by simp
qed

lemma never_true_at_int_max:
  assumes "max_subsequent_unhealthy_updates m = 2147483647"
  shows "\<not> result (shouldResetEstimator xs out m)"
  using sint_le_max [of "num_subsequent_unhealthy_updates m + 1"] assms
  by (simp add: shouldResetEstimator_def Let_def)

section \<open>The median of the feature samples\<close>

text \<open>
  C4 (amended). The median computed by the method is 0 for an empty collection and
  otherwise the element at index \<open>size / 2\<close> of the sorted order: at most \<open>size / 2\<close>
  samples are strictly smaller and more than \<open>size / 2\<close> samples are not larger. For an
  odd size this is the middle element; for an even size it is the upper of the two middle
  elements, not the lower one.
\<close>

theorem median_is_upper_middle:
  "median_of [] = 0 \<and>
   (xs \<noteq> [] \<longrightarrow>
      median_of xs = sort xs ! (length xs div 2) \<and>
      median_of xs \<in> set xs \<and>
      length (filter (\<lambda>x. x < median_of xs) xs) \<le> length xs div 2 \<and>
      length xs div 2 < length (filter (\<lambda>x. x \<le> median_of xs) xs)) \<and>
   (odd (length xs) \<longrightarrow> median_of xs = lower_median xs) \<and>
   (even (length xs) \<and> xs \<noteq> [] \<longrightarrow>
      lower_median xs = sort xs ! (length xs div 2 - 1) \<and>
      lower_median xs \<le> median_of xs)"
proof -
  have e: "median_of [] = 0" by (simp add: median_of_def)
  have ne: "median_of xs = sort xs ! (length xs div 2) \<and>
      median_of xs \<in> set xs \<and>
      length (filter (\<lambda>x. x < median_of xs) xs) \<le> length xs div 2 \<and>
      length xs div 2 < length (filter (\<lambda>x. x \<le> median_of xs) xs)" if "xs \<noteq> []"
  proof -
    let ?i = "length xs div 2"
    have i: "?i < length (sort xs)" using that by simp
    have m: "median_of xs = sort xs ! ?i" using that by (rule median_of_nth)
    have "sort xs ! ?i \<in> set (sort xs)" using i by (rule nth_mem)
    then have mem: "median_of xs \<in> set xs" using m by simp
    have "length (filter (\<lambda>x. x < sort xs ! ?i) (sort xs)) \<le> ?i"
      using count_below_sorted [OF sorted_sort i] .
    then have a: "length (filter (\<lambda>x. x < median_of xs) xs) \<le> ?i"
      by (simp only: m length_filter_sort)
    have "?i < length (filter (\<lambda>x. x \<le> sort xs ! ?i) (sort xs))"
      using count_upto_sorted [OF sorted_sort i] .
    then have b: "?i < length (filter (\<lambda>x. x \<le> median_of xs) xs)"
      by (simp only: m length_filter_sort)
    show ?thesis using m mem a b by simp
  qed
  have od: "median_of xs = lower_median xs" if "odd (length xs)"
  proof -
    from that have "xs \<noteq> []" by auto
    moreover have "(length xs - 1) div 2 = length xs div 2"
      using that by (auto elim!: oddE)
    ultimately show ?thesis by (simp add: median_of_nth lower_median_def)
  qed
  have ev: "lower_median xs = sort xs ! (length xs div 2 - 1) \<and>
      lower_median xs \<le> median_of xs" if "even (length xs)" "xs \<noteq> []"
  proof -
    have pos: "0 < length xs" using that(2) by simp
    have idx: "(length xs - 1) div 2 = length xs div 2 - 1"
      using that(1) pos by (auto elim!: evenE)
    have l: "lower_median xs = sort xs ! (length xs div 2 - 1)"
      using that(2) idx by (simp add: lower_median_def)
    have "sort xs ! (length xs div 2 - 1) \<le> sort xs ! (length xs div 2)"
      using pos by (intro sorted_nth_mono) simp_all
    then show ?thesis using l that(2) by (simp add: median_of_nth)
  qed
  show ?thesis using e ne od ev by blast
qed

theorem median_is_upper_middle_witness:
  "median_of [3, 1, 2] = 2 \<and> lower_median [3, 1, 2] = 2 \<and>
   median_of [4, 1, 3, 2] = 3 \<and> lower_median [4, 1, 3, 2] = 2 \<and>
   length (filter (\<lambda>x. x < median_of [4, 1, 3, 2]) [4, 1, 3, 2]) \<le> 2 \<and>
   2 < length (filter (\<lambda>x. x \<le> median_of [4, 1, 3, 2]) [4, 1, 3, 2])"
  using median_is_upper_middle [of "[3, 1, 2]"] median_is_upper_middle [of "[4, 1, 3, 2]"]
  by (simp add: lower_median_def)

text \<open>
  On the two samples 1 and 2 the method reads index 1 of the sorted copy, which is 2; the
  lower-middle element is 1.
\<close>

theorem median_is_upper_middle_counterexample:
  "median_of [1, 2] = 2 \<and> lower_median [1, 2] = 1 \<and> median_of [1, 2] \<noteq> lower_median [1, 2]"
  by (simp add: median_of_def nth_element_def lower_median_def)

section \<open>The unhealthy test\<close>




text \<open>
  C8. When \<open>unhealthy_feature_pixel_cov_area\<close> is positive, a call with no feature sample
  has median 0, which is not above that threshold, so the cycle is unhealthy exactly when
  the speed exceeds both velocity thresholds.
\<close>

theorem empty_features_velocity_only:
  assumes "0 < unhealthy_feature_pixel_cov_area m"
  shows "median_of [] = 0 \<and>
         \<not> median_of [] > unhealthy_feature_pixel_cov_area m \<and>
         (unhealthy m ([], out) \<longleftrightarrow>
            float_gt (BvB_norm out) (velocity_to_consider_static m) \<and>
            float_gt (BvB_norm out) (unhealthy_velocity m))"
  using assms by (auto simp: unhealthy_iff median_of_def)

theorem empty_features_velocity_only_witness:
  "0 < unhealthy_feature_pixel_cov_area (RovioHealthMonitor_new no_params) \<and>
   \<not> unhealthy (RovioHealthMonitor_new no_params)
       ([], \<lparr>BvB = (5, 0, 0), WrWB = (0, 0, 0), qBW = quaternion_identity\<rparr>) \<and>
   unhealthy (RovioHealthMonitor_new no_params)
       ([], \<lparr>BvB = (7, 0, 0), WrWB = (0, 0, 0), qBW = quaternion_identity\<rparr>)"
  using empty_features_velocity_only [of "RovioHealthMonitor_new no_params"
      "\<lparr>BvB = (5, 0, 0), WrWB = (0, 0, 0), qBW = quaternion_identity\<rparr>"]
    empty_features_velocity_only [of "RovioHealthMonitor_new no_params"
      "\<lparr>BvB = (7, 0, 0), WrWB = (0, 0, 0), qBW = quaternion_identity\<rparr>"]
  by (simp add: RovioHealthMonitor_new_def no_params_def param_def BvB_norm_x)

section \<open>The streak counter\<close>

text \<open>
  C2 (amended). Let \<open>k\<close> be \<open>max_subsequent_unhealthy_updates\<close> with
  \<open>0 \<le> k < 2147483647\<close>. Starting with the counter at zero (as the constructor and every
  healthy cycle leave it), \<open>k + 1\<close> consecutive unhealthy cycles return false \<open>k\<close> times and
  then true. The instance of the claim (the defaults, three cycles at speed 7 with median 0)
  is the witness.
\<close>

theorem streak_threshold:
  assumes "num_subsequent_unhealthy_updates m = 0"
    and "0 \<le> sint (max_subsequent_unhealthy_updates m)"
    and "sint (max_subsequent_unhealthy_updates m) < 2147483647"
    and "length cs = nat (sint (max_subsequent_unhealthy_updates m)) + 1"
    and "\<forall>c\<in>set cs. unhealthy m c"
  shows "map result (cycles m cs) =
           replicate (nat (sint (max_subsequent_unhealthy_updates m))) False @ [True]"
proof (rule nth_equalityI)
  let ?k = "nat (sint (max_subsequent_unhealthy_updates m))"
  show "length (map result (cycles m cs)) = length (replicate ?k False @ [True])"
    using assms(4) by simp
  fix i
  assume "i < length (map result (cycles m cs))"
  then have i: "i < length cs" by simp
  then have "Suc i < 2147483648" using assms(2-4) by linarith
  then have s: "sint (of_nat (Suc i) :: 32 word) = int (Suc i)"
    by (rule sint_of_nat_32)
  have r: "result (cycles m cs ! i) = (sint (max_subsequent_unhealthy_updates m) < int (Suc i))"
    using nth_unhealthy [OF assms(5) i] s assms(1) by simp
  show "map result (cycles m cs) ! i = (replicate ?k False @ [True]) ! i"
  proof (cases "i < ?k")
    case True
    then show ?thesis using i r by (simp add: nth_append)
  next
    case False
    then have "i = ?k" using i assms(4) by simp
    then show ?thesis using i r assms(2) by (simp add: nth_append)
  qed
qed

theorem streak_threshold_witness:
  "num_subsequent_unhealthy_updates (RovioHealthMonitor_new no_params) = 0 \<and>
   sint (max_subsequent_unhealthy_updates (RovioHealthMonitor_new no_params)) = 2 \<and>
   unhealthy_velocity (RovioHealthMonitor_new no_params) = 6.0 \<and>
   velocity_to_consider_static (RovioHealthMonitor_new no_params) = 0.1 \<and>
   BvB_norm \<lparr>BvB = (7, 0, 0), WrWB = (0, 0, 0), qBW = quaternion_identity\<rparr> = Finite 7 \<and>
   median_of [] = 0 \<and>
   map result (cycles (RovioHealthMonitor_new no_params)
     [([], \<lparr>BvB = (7, 0, 0), WrWB = (0, 0, 0), qBW = quaternion_identity\<rparr>),
      ([], \<lparr>BvB = (7, 0, 0), WrWB = (0, 0, 0), qBW = quaternion_identity\<rparr>),
      ([], \<lparr>BvB = (7, 0, 0), WrWB = (0, 0, 0), qBW = quaternion_identity\<rparr>)]) =
     [False, False, True]"
  using streak_threshold [of "RovioHealthMonitor_new no_params"
     "[([], \<lparr>BvB = (7, 0, 0), WrWB = (0, 0, 0), qBW = quaternion_identity\<rparr>),
      ([], \<lparr>BvB = (7, 0, 0), WrWB = (0, 0, 0), qBW = quaternion_identity\<rparr>),
      ([], \<lparr>BvB = (7, 0, 0), WrWB = (0, 0, 0), qBW = quaternion_identity\<rparr>)]"]
  by (simp add: RovioHealthMonitor_new_def no_params_def param_def BvB_norm_x median_of_def
        unhealthy_iff numeral_2_eq_2)

text \<open>
  With \<open>k = 2147483647\<close> no value of the counter exceeds the bound, so the call
  number \<open>k + 1\<close> of an unhealthy streak returns false as every other call does.
\<close>

theorem streak_threshold_counterexample:
  "0 \<le> sint (max_subsequent_unhealthy_updates
       (RovioHealthMonitor_new (no_params\<lparr>p_max_subsequent_unhealthy_updates := Some 2147483647\<rparr>))) \<and>
   num_subsequent_unhealthy_updates
       (RovioHealthMonitor_new (no_params\<lparr>p_max_subsequent_unhealthy_updates := Some 2147483647\<rparr>)) = 0 \<and>
   unhealthy (RovioHealthMonitor_new (no_params\<lparr>p_max_subsequent_unhealthy_updates := Some 2147483647\<rparr>))
       ([], \<lparr>BvB = (7, 0, 0), WrWB = (0, 0, 0), qBW = quaternion_identity\<rparr>) \<and>
   \<not> result (cycles
       (RovioHealthMonitor_new (no_params\<lparr>p_max_subsequent_unhealthy_updates := Some 2147483647\<rparr>))
       (replicate (2147483647 + 1)
          ([], \<lparr>BvB = (7, 0, 0), WrWB = (0, 0, 0), qBW = quaternion_identity\<rparr>)) ! 2147483647)"
proof -
  let ?m = "RovioHealthMonitor_new (no_params\<lparr>p_max_subsequent_unhealthy_updates := Some 2147483647\<rparr>)"
  let ?c = "([] :: real list, \<lparr>BvB = (7, 0, 0), WrWB = (0, 0, 0), qBW = quaternion_identity\<rparr>)"
  have mx: "max_subsequent_unhealthy_updates ?m = 2147483647"
    by (simp add: RovioHealthMonitor_new_def no_params_def param_def)
  have "max_subsequent_unhealthy_updates
          (final_monitor ?m (take 2147483647 (replicate (2147483647 + 1) ?c))) = 2147483647"
    using mx by simp
  then have "\<not> result (cycles ?m (replicate (2147483647 + 1) ?c) ! 2147483647)"
    by (simp add: cycles_nth never_true_at_int_max del: max_final)
  moreover have "unhealthy ?m ?c"
    by (simp add: unhealthy_iff RovioHealthMonitor_new_def no_params_def param_def BvB_norm_x median_of_def)
  moreover have "num_subsequent_unhealthy_updates ?m = 0"
    by (simp add: RovioHealthMonitor_new_def)
  ultimately show ?thesis using mx by simp
qed




text \<open>
  C6 (amended). A call that returns true leaves the counter at its incremented value, above
  the bound. Every unhealthy cycle that follows returns true as well, as long as the counter
  does not pass \<open>2147483647\<close>, and the first healthy cycle returns false and zeroes the
  counter.
\<close>

theorem reset_signal_repeats:
  assumes "result (shouldResetEstimator xs out m)"
    and "\<forall>c\<in>set cs. unhealthy m c"
    and "sint (num_subsequent_unhealthy_updates (monitor (shouldResetEstimator xs out m))) +
           int (length cs) \<le> 2147483647"
    and "\<not> unhealthy m h"
  shows "let m1 = monitor (shouldResetEstimator xs out m);
             m2 = final_monitor m1 cs
         in num_subsequent_unhealthy_updates m1 = num_subsequent_unhealthy_updates m + 1 \<and>
            sint (max_subsequent_unhealthy_updates m) < sint (num_subsequent_unhealthy_updates m1) \<and>
            (\<forall>r\<in>set (cycles m1 cs). result r) \<and>
            num_subsequent_unhealthy_updates m2 =
              num_subsequent_unhealthy_updates m1 + of_nat (length cs) \<and>
            \<not> result (shouldResetEstimator (fst h) (snd h) m2) \<and>
            num_subsequent_unhealthy_updates
              (monitor (shouldResetEstimator (fst h) (snd h) m2)) = 0"
proof -
  let ?m1 = "monitor (shouldResetEstimator xs out m)"
  let ?m2 = "final_monitor ?m1 cs"
  have u: "unhealthy m (xs, out)" using result_true(1) [OF assms(1)] .
  have n1: "num_subsequent_unhealthy_updates ?m1 = num_subsequent_unhealthy_updates m + 1"
    using step_unhealthy(1) [OF u] by simp
  have gt: "sint (max_subsequent_unhealthy_updates m) < sint (num_subsequent_unhealthy_updates ?m1)"
    using result_true(2) [OF assms(1)] n1 by simp
  have un: "\<forall>c\<in>set cs. unhealthy ?m1 c" using assms(2) by simp
  have all: "\<forall>r\<in>set (cycles ?m1 cs). result r"
  proof
    fix r assume "r \<in> set (cycles ?m1 cs)"
    then obtain i where i: "i < length cs" and r: "r = cycles ?m1 cs ! i"
      by (metis in_set_conv_nth length_cycles)
    have "sint (num_subsequent_unhealthy_updates ?m1) + int (Suc i) \<le> 2147483647"
      using i assms(3) by linarith
    then have "sint (num_subsequent_unhealthy_updates ?m1 + of_nat (Suc i)) =
                 sint (num_subsequent_unhealthy_updates ?m1) + int (Suc i)"
      by (rule sint_add_nat_32)
    then show "result r"
      using nth_unhealthy [OF un i] r gt by (simp add: thresholds_kept)
  qed
  have n2: "num_subsequent_unhealthy_updates ?m2 =
              num_subsequent_unhealthy_updates ?m1 + of_nat (length cs)"
    using final_unhealthy [OF un] by simp
  have h: "\<not> unhealthy ?m2 h" using assms(4) by simp
  show ?thesis
    using n1 gt all n2 step_healthy(1,2) [OF h] by (simp add: Let_def)
qed

theorem reset_signal_repeats_witness:
  "result (shouldResetEstimator [] \<lparr>BvB = (7, 0, 0), WrWB = (0, 0, 0), qBW = quaternion_identity\<rparr>
     ((RovioHealthMonitor_new no_params)\<lparr>num_subsequent_unhealthy_updates := 2\<rparr>)) \<and>
   map result (cycles (monitor (shouldResetEstimator []
       \<lparr>BvB = (7, 0, 0), WrWB = (0, 0, 0), qBW = quaternion_identity\<rparr>
       ((RovioHealthMonitor_new no_params)\<lparr>num_subsequent_unhealthy_updates := 2\<rparr>)))
     [([], \<lparr>BvB = (7, 0, 0), WrWB = (0, 0, 0), qBW = quaternion_identity\<rparr>),
      ([9, 8, 7], \<lparr>BvB = (1, 0, 0), WrWB = (0, 0, 0), qBW = quaternion_identity\<rparr>),
      ([], \<lparr>BvB = (0, 0, 0), WrWB = (0, 0, 0), qBW = quaternion_identity\<rparr>)]) =
     [True, True, False] \<and>
   num_subsequent_unhealthy_updates (final_monitor (monitor (shouldResetEstimator []
       \<lparr>BvB = (7, 0, 0), WrWB = (0, 0, 0), qBW = quaternion_identity\<rparr>
       ((RovioHealthMonitor_new no_params)\<lparr>num_subsequent_unhealthy_updates := 2\<rparr>)))
     [([], \<lparr>BvB = (7, 0, 0), WrWB = (0, 0, 0), qBW = quaternion_identity\<rparr>),
      ([9, 8, 7], \<lparr>BvB = (1, 0, 0), WrWB = (0, 0, 0), qBW = quaternion_identity\<rparr>)]) = 5"
  using reset_signal_repeats [of "[]"
     "\<lparr>BvB = (7, 0, 0), WrWB = (0, 0, 0), qBW = quaternion_identity\<rparr>"
     "(RovioHealthMonitor_new no_params)\<lparr>num_subsequent_unhealthy_updates := 2\<rparr>"
     "[([], \<lparr>BvB = (7, 0, 0), WrWB = (0, 0, 0), qBW = quaternion_identity\<rparr>),
       ([9, 8, 7], \<lparr>BvB = (1, 0, 0), WrWB = (0, 0, 0), qBW = quaternion_identity\<rparr>)]"
     "([], \<lparr>BvB = (0, 0, 0), WrWB = (0, 0, 0), qBW = quaternion_identity\<rparr>)"]
  by (simp add: RovioHealthMonitor_new_def no_params_def param_def BvB_norm_x median_of_def
        nth_element_def unhealthy_iff Let_def shouldResetEstimator_def)

text \<open>
  Without the bound the claim fails: on a new monitor with the default parameters the third
  call of an unhealthy streak returns true, and call number \<open>2147483648\<close> of the same streak
  increments the counter from \<open>2147483647\<close>, which wraps to a negative value, and returns
  false.
\<close>

theorem reset_signal_repeats_counterexample:
  "unhealthy (RovioHealthMonitor_new no_params)
     ([], \<lparr>BvB = (7, 0, 0), WrWB = (0, 0, 0), qBW = quaternion_identity\<rparr>) \<and>
   result (cycles (RovioHealthMonitor_new no_params)
     (replicate 2147483648
        ([], \<lparr>BvB = (7, 0, 0), WrWB = (0, 0, 0), qBW = quaternion_identity\<rparr>)) ! 2) \<and>
   \<not> result (cycles (RovioHealthMonitor_new no_params)
     (replicate 2147483648
        ([], \<lparr>BvB = (7, 0, 0), WrWB = (0, 0, 0), qBW = quaternion_identity\<rparr>)) ! 2147483647)"
proof -
  let ?m = "RovioHealthMonitor_new no_params"
  let ?c = "([] :: real list, \<lparr>BvB = (7, 0, 0), WrWB = (0, 0, 0), qBW = quaternion_identity\<rparr>)"
  have u: "unhealthy ?m ?c"
    by (simp add: unhealthy_iff RovioHealthMonitor_new_def no_params_def param_def BvB_norm_x
          median_of_def)
  then have all: "\<forall>c\<in>set (replicate 2147483648 ?c). unhealthy ?m c" by simp
  have m: "num_subsequent_unhealthy_updates ?m = 0" "max_subsequent_unhealthy_updates ?m = 2"
    by (simp_all add: RovioHealthMonitor_new_def no_params_def param_def)
  have "result (cycles ?m (replicate 2147483648 ?c) ! 2)"
    using nth_unhealthy [OF all, of 2] m by simp
  moreover have "\<not> result (cycles ?m (replicate 2147483648 ?c) ! 2147483647)"
    using nth_unhealthy [OF all, of 2147483647] m by simp
  ultimately show ?thesis using u by simp
qed

section \<open>The retained failsafe pose\<close>

text \<open>
  C3 (amended). A healthy cycle overwrites the retained pose (position, orientation and
  median) with the snapshot's position and orientation and the computed median if and only
  if the median is strictly below \<open>healthy_feature_pixel_cov_area\<close> and the absolute
  difference between the median and the retained median, computed in single precision as
  lines 115--117 do, is strictly below \<open>healthy_feature_pixel_cov_area_increment\<close>;
  otherwise the retained pose stays as it was. The constructor sets it to zero position,
  identity orientation and zero median.
\<close>

theorem failsafe_update_rule:
  "(\<not> unhealthy m (xs, out) \<longrightarrow>
      last_safe_pose (monitor (shouldResetEstimator xs out m)) =
        (if median_of xs < healthy_feature_pixel_cov_area m \<and>
            float_lt
              (float_abs (float_sub (median_of xs)
                 (feature_pixel_cov_area_median (last_safe_pose m))))
              (healthy_feature_pixel_cov_area_increment m)
         then \<lparr>failsafe_WrWB = WrWB out, failsafe_qBW = qBW out,
                feature_pixel_cov_area_median = median_of xs\<rparr>
         else last_safe_pose m)) \<and>
   float_sub (median_of xs) (feature_pixel_cov_area_median (last_safe_pose m)) =
     to_float32 (median_of xs - feature_pixel_cov_area_median (last_safe_pose m)) \<and>
   last_safe_pose (RovioHealthMonitor_new ps) =
     \<lparr>failsafe_WrWB = (0, 0, 0),
      failsafe_qBW = \<lparr>qw = 1, qx = 0, qy = 0, qz = 0\<rparr>,
      feature_pixel_cov_area_median = 0\<rparr> \<and>
   get_failsafe_WrWB (RovioHealthMonitor_new ps) = (0, 0, 0) \<and>
   get_failsafe_qBW (RovioHealthMonitor_new ps) = \<lparr>qw = 1, qx = 0, qy = 0, qz = 0\<rparr>"
  unfolding unhealthy_iff
  by (auto simp: shouldResetEstimator_def Let_def RovioHealthMonitor_new_def
        RovioFailsafePose_init_def quaternion_identity_def get_failsafe_WrWB_def
        get_failsafe_qBW_def float_sub_def)

theorem failsafe_update_rule_witness:
  "\<not> unhealthy (RovioHealthMonitor_new no_params)
       ([1 / 2, 1 / 4, 1 / 8], \<lparr>BvB = (1, 0, 0), WrWB = (1, 2, 3),
          qBW = \<lparr>qw = 0, qx = 1, qy = 0, qz = 0\<rparr>\<rparr>) \<and>
   last_safe_pose (monitor (shouldResetEstimator [1 / 2, 1 / 4, 1 / 8]
       \<lparr>BvB = (1, 0, 0), WrWB = (1, 2, 3), qBW = \<lparr>qw = 0, qx = 1, qy = 0, qz = 0\<rparr>\<rparr>
       (RovioHealthMonitor_new no_params))) =
     \<lparr>failsafe_WrWB = (1, 2, 3), failsafe_qBW = \<lparr>qw = 0, qx = 1, qy = 0, qz = 0\<rparr>,
      feature_pixel_cov_area_median = 1 / 4\<rparr> \<and>
   \<not> unhealthy (RovioHealthMonitor_new no_params)
       ([1 / 2], \<lparr>BvB = (1, 0, 0), WrWB = (1, 2, 3),
          qBW = \<lparr>qw = 0, qx = 1, qy = 0, qz = 0\<rparr>\<rparr>) \<and>
   last_safe_pose (monitor (shouldResetEstimator [1 / 2]
       \<lparr>BvB = (1, 0, 0), WrWB = (1, 2, 3), qBW = \<lparr>qw = 0, qx = 1, qy = 0, qz = 0\<rparr>\<rparr>
       (RovioHealthMonitor_new no_params))) =
     \<lparr>failsafe_WrWB = (0, 0, 0), failsafe_qBW = \<lparr>qw = 1, qx = 0, qy = 0, qz = 0\<rparr>,
      feature_pixel_cov_area_median = 0\<rparr>"
proof -
  define m where "m = RovioHealthMonitor_new no_params"
  define s where
    "s = \<lparr>BvB = (1, 0, 0), WrWB = (1, 2, 3), qBW = \<lparr>qw = 0, qx = 1, qy = 0, qz = 0\<rparr>\<rparr>"
  note m = new_no_params [folded m_def]
  have med: "median_of [1 / 2, 1 / 4, 1 / 8] = 1 / 4"
    by (simp add: median_of_def nth_element_def)
  have f: "to_float32 (1 / 4) = Finite (1 / 4)" "to_float32 (1 / 2) = Finite (1 / 2)"
    using to_float32_dyadic [of 1 2] to_float32_dyadic [of 1 1] by simp_all
  have h1: "\<not> unhealthy m ([1 / 2, 1 / 4, 1 / 8], s)"
    by (simp add: unhealthy_iff s_def BvB_norm_x m med)
  have h2: "\<not> unhealthy m ([1 / 2], s)"
    by (simp add: unhealthy_iff s_def BvB_norm_x m)
  have 1: "last_safe_pose (monitor (shouldResetEstimator [1 / 2, 1 / 4, 1 / 8] s m)) =
      \<lparr>failsafe_WrWB = (1, 2, 3), failsafe_qBW = \<lparr>qw = 0, qx = 1, qy = 0, qz = 0\<rparr>,
       feature_pixel_cov_area_median = 1 / 4\<rparr>"
    using failsafe_update_rule [of m "[1 / 2, 1 / 4, 1 / 8]" s no_params] h1 f
    by (simp add: med m s_def RovioFailsafePose_init_def)
  have 2: "last_safe_pose (monitor (shouldResetEstimator [1 / 2] s m)) =
     \<lparr>failsafe_WrWB = (0, 0, 0), failsafe_qBW = \<lparr>qw = 1, qx = 0, qy = 0, qz = 0\<rparr>,
      feature_pixel_cov_area_median = 0\<rparr>"
    using failsafe_update_rule [of m "[1 / 2]" s no_params] h2 f
    by (simp add: m RovioFailsafePose_init_def quaternion_identity_def)
  show ?thesis
    using h1 1 h2 2 unfolding m_def s_def by blast
qed

text \<open>
  With the exact difference the claim fails: with an increment of 0.25 and a retained median
  of \<open>2^-28\<close> (retained by one healthy call), a healthy cycle with median 0.25 has an exact
  difference below 0.25, but the single-precision difference rounds to 0.25 and the pose of
  the first call is kept.
\<close>

theorem failsafe_update_rule_counterexample:
  "\<not> unhealthy
       (monitor (shouldResetEstimator [1 / 2 ^ 28]
          \<lparr>BvB = (0, 0, 0), WrWB = (1, 1, 1), qBW = quaternion_identity\<rparr>
          (RovioHealthMonitor_new
             (no_params\<lparr>p_healthy_feature_pixel_cov_area_increment := Some (1 / 4)\<rparr>))))
       ([1 / 4], \<lparr>BvB = (0, 0, 0), WrWB = (4, 4, 4), qBW = quaternion_identity\<rparr>) \<and>
   median_of [1 / 4] <
     healthy_feature_pixel_cov_area
       (monitor (shouldResetEstimator [1 / 2 ^ 28]
          \<lparr>BvB = (0, 0, 0), WrWB = (1, 1, 1), qBW = quaternion_identity\<rparr>
          (RovioHealthMonitor_new
             (no_params\<lparr>p_healthy_feature_pixel_cov_area_increment := Some (1 / 4)\<rparr>)))) \<and>
   \<bar>median_of [1 / 4] -
      feature_pixel_cov_area_median (last_safe_pose
        (monitor (shouldResetEstimator [1 / 2 ^ 28]
          \<lparr>BvB = (0, 0, 0), WrWB = (1, 1, 1), qBW = quaternion_identity\<rparr>
          (RovioHealthMonitor_new
             (no_params\<lparr>p_healthy_feature_pixel_cov_area_increment := Some (1 / 4)\<rparr>)))))\<bar> <
     healthy_feature_pixel_cov_area_increment
       (monitor (shouldResetEstimator [1 / 2 ^ 28]
          \<lparr>BvB = (0, 0, 0), WrWB = (1, 1, 1), qBW = quaternion_identity\<rparr>
          (RovioHealthMonitor_new
             (no_params\<lparr>p_healthy_feature_pixel_cov_area_increment := Some (1 / 4)\<rparr>)))) \<and>
   failsafe_WrWB (last_safe_pose
     (monitor (shouldResetEstimator [1 / 4]
        \<lparr>BvB = (0, 0, 0), WrWB = (4, 4, 4), qBW = quaternion_identity\<rparr>
        (monitor (shouldResetEstimator [1 / 2 ^ 28]
          \<lparr>BvB = (0, 0, 0), WrWB = (1, 1, 1), qBW = quaternion_identity\<rparr>
          (RovioHealthMonitor_new
             (no_params\<lparr>p_healthy_feature_pixel_cov_area_increment := Some (1 / 4)\<rparr>))))))) =
     (1, 1, 1)"
proof -
  define m where
    "m = RovioHealthMonitor_new
           (no_params\<lparr>p_healthy_feature_pixel_cov_area_increment := Some (1 / 4)\<rparr>)"
  define s where "s = \<lparr>BvB = (0, 0, 0), WrWB = (1, 1, 1), qBW = quaternion_identity\<rparr>"
  define t where "t = \<lparr>BvB = (0, 0, 0), WrWB = (4, 4, 4), qBW = quaternion_identity\<rparr>"
  define a :: real where "a = 1 / 2 ^ 28"
  define m1 where "m1 = monitor (shouldResetEstimator [a] s m)"
  have m: "velocity_to_consider_static m = 1 / 10" "healthy_feature_pixel_cov_area m = 1"
    "healthy_feature_pixel_cov_area_increment m = 1 / 4"
    "feature_pixel_cov_area_median (last_safe_pose m) = 0"
    by (simp_all add: m_def RovioHealthMonitor_new_def no_params_def param_def
          RovioFailsafePose_init_def)
  have a: "0 < a" "a < 1 / 4" "a < 1" by (simp_all add: a_def)
  have fa: "to_float32 a = Finite a"
    unfolding a_def using to_float32_dyadic [of 1 28] by simp
  have fd: "float_sub (1 / 4) a = Finite (1 / 4)"
    unfolding a_def float_sub_def by (rule to_float32_quarter_less)
  have hs: "\<not> unhealthy m ([a], s)" unfolding s_def by (rule healthy_at_rest) (simp add: m)
  have p1: "last_safe_pose m1 =
      \<lparr>failsafe_WrWB = (1, 1, 1), failsafe_qBW = quaternion_identity,
       feature_pixel_cov_area_median = a\<rparr>"
    using step_healthy(3) [OF hs] a by (simp add: m1_def m fa s_def)
  have k: "velocity_to_consider_static m1 = 1 / 10" "healthy_feature_pixel_cov_area m1 = 1"
    "healthy_feature_pixel_cov_area_increment m1 = 1 / 4"
    by (simp_all add: m1_def thresholds_kept m)
  have 1: "\<not> unhealthy m1 ([1 / 4], t)" unfolding t_def by (rule healthy_at_rest) (simp add: k)
  have 2: "median_of [1 / 4] < healthy_feature_pixel_cov_area m1" by (simp add: k)
  have 3: "\<bar>median_of [1 / 4] - feature_pixel_cov_area_median (last_safe_pose m1)\<bar> <
             healthy_feature_pixel_cov_area_increment m1"
    using a by (simp add: k p1)
  have "last_safe_pose (monitor (shouldResetEstimator [1 / 4] t m1)) = last_safe_pose m1"
    using step_healthy(3) [OF 1] by (simp add: k p1 fd)
  then have 4: "failsafe_WrWB (last_safe_pose (monitor (shouldResetEstimator [1 / 4] t m1))) =
      (1, 1, 1)"
    by (simp add: p1)
  show ?thesis
    using 1 2 3 4 unfolding m1_def m_def s_def t_def a_def by blast
qed

text \<open>
  C7 (amended). Take a non-empty sequence of healthy cycles whose medians are all strictly
  below \<open>healthy_feature_pixel_cov_area\<close>, whose first median and the median retained
  before the sequence, and whose consecutive medians, have a single-precision absolute
  difference (as lines 115--117 compute it) strictly below
  \<open>healthy_feature_pixel_cov_area_increment\<close>. After the sequence the retained pose is the
  snapshot (position, orientation, median) of the last cycle. The medians need not decrease
  for this. Separately, a healthy cycle whose median has a single-precision absolute
  difference to the retained median that is not below the increment leaves the retained pose
  as it was.
\<close>

theorem failsafe_retention:
  "(cs \<noteq> [] \<and>
    (\<forall>c\<in>set cs. \<not> unhealthy m c) \<and>
    (\<forall>c\<in>set cs. median_of (fst c) < healthy_feature_pixel_cov_area m) \<and>
    float_lt
      (float_abs (float_sub (median_of (fst (hd cs)))
         (feature_pixel_cov_area_median (last_safe_pose m))))
      (healthy_feature_pixel_cov_area_increment m) \<and>
    (\<forall>i. Suc i < length cs \<longrightarrow>
       float_lt
         (float_abs (float_sub (median_of (fst (cs ! Suc i))) (median_of (fst (cs ! i)))))
         (healthy_feature_pixel_cov_area_increment m)) \<longrightarrow>
    last_safe_pose (final_monitor m cs) =
      \<lparr>failsafe_WrWB = WrWB (snd (last cs)), failsafe_qBW = qBW (snd (last cs)),
       feature_pixel_cov_area_median = median_of (fst (last cs))\<rparr>) \<and>
   (\<not> unhealthy m (xs, out) \<and>
    \<not> float_lt
        (float_abs (float_sub (median_of xs) (feature_pixel_cov_area_median (last_safe_pose m))))
        (healthy_feature_pixel_cov_area_increment m) \<longrightarrow>
    last_safe_pose (monitor (shouldResetEstimator xs out m)) = last_safe_pose m)"
proof (intro conjI impI)
  assume a: "cs \<noteq> [] \<and>
    (\<forall>c\<in>set cs. \<not> unhealthy m c) \<and>
    (\<forall>c\<in>set cs. median_of (fst c) < healthy_feature_pixel_cov_area m) \<and>
    float_lt
      (float_abs (float_sub (median_of (fst (hd cs)))
         (feature_pixel_cov_area_median (last_safe_pose m))))
      (healthy_feature_pixel_cov_area_increment m) \<and>
    (\<forall>i. Suc i < length cs \<longrightarrow>
       float_lt
         (float_abs (float_sub (median_of (fst (cs ! Suc i))) (median_of (fst (cs ! i)))))
         (healthy_feature_pixel_cov_area_increment m))"
  then obtain c0 cs' where cs: "cs = c0 # cs'" by (cases cs) auto
  have "last_safe_pose (final_monitor m (c0 # cs')) =
           \<lparr>failsafe_WrWB = WrWB (snd (last (c0 # cs'))),
            failsafe_qBW = qBW (snd (last (c0 # cs'))),
            feature_pixel_cov_area_median = median_of (fst (last (c0 # cs')))\<rparr>"
  proof (rule retention_chain)
    show "\<forall>c\<in>set (c0 # cs'). \<not> unhealthy m c \<and>
             median_of (fst c) < healthy_feature_pixel_cov_area m"
      using a cs by simp
    show "float_lt
           (float_abs (float_sub (median_of (fst c0))
              (feature_pixel_cov_area_median (last_safe_pose m))))
           (healthy_feature_pixel_cov_area_increment m)"
      using a cs by simp
    show "\<forall>i. i < length cs' \<longrightarrow>
           float_lt
             (float_abs (float_sub (median_of (fst (cs' ! i)))
                (median_of (fst ((c0 # cs') ! i)))))
             (healthy_feature_pixel_cov_area_increment m)"
      using a cs by simp
  qed
  then show "last_safe_pose (final_monitor m cs) =
      \<lparr>failsafe_WrWB = WrWB (snd (last cs)), failsafe_qBW = qBW (snd (last cs)),
       feature_pixel_cov_area_median = median_of (fst (last cs))\<rparr>"
    using cs by simp
next
  assume b: "\<not> unhealthy m (xs, out) \<and>
    \<not> float_lt
        (float_abs (float_sub (median_of xs) (feature_pixel_cov_area_median (last_safe_pose m))))
        (healthy_feature_pixel_cov_area_increment m)"
  then have h: "\<not> unhealthy m (xs, out)" by simp
  show "last_safe_pose (monitor (shouldResetEstimator xs out m)) = last_safe_pose m"
    using step_healthy(3) [OF h] b by simp
qed

theorem failsafe_retention_witness:
  "last_safe_pose (final_monitor (RovioHealthMonitor_new no_params)
     [([1 / 4], \<lparr>BvB = (0, 0, 0), WrWB = (1, 1, 1), qBW = quaternion_identity\<rparr>),
      ([1 / 8], \<lparr>BvB = (0, 0, 0), WrWB = (2, 2, 2), qBW = quaternion_identity\<rparr>),
      ([1 / 16], \<lparr>BvB = (0, 0, 0), WrWB = (3, 3, 3), qBW = \<lparr>qw = 0, qx = 1, qy = 0, qz = 0\<rparr>\<rparr>)]) =
     \<lparr>failsafe_WrWB = (3, 3, 3), failsafe_qBW = \<lparr>qw = 0, qx = 1, qy = 0, qz = 0\<rparr>,
      feature_pixel_cov_area_median = 1 / 16\<rparr> \<and>
   last_safe_pose (monitor (shouldResetEstimator [1 / 2]
       \<lparr>BvB = (0, 0, 0), WrWB = (4, 4, 4), qBW = quaternion_identity\<rparr>
       (RovioHealthMonitor_new no_params))) = last_safe_pose (RovioHealthMonitor_new no_params) \<and>
   last_safe_pose (monitor (shouldResetEstimator []
       \<lparr>BvB = (0, 0, 0), WrWB = (4, 4, 4), qBW = quaternion_identity\<rparr>
       (RovioHealthMonitor_new (no_params\<lparr>p_healthy_feature_pixel_cov_area_increment := Some 0\<rparr>)))) =
     last_safe_pose (RovioHealthMonitor_new (no_params\<lparr>p_healthy_feature_pixel_cov_area_increment := Some 0\<rparr>))"
proof -
  define m where "m = RovioHealthMonitor_new no_params"
  define z where "z = RovioHealthMonitor_new (no_params\<lparr>p_healthy_feature_pixel_cov_area_increment := Some 0\<rparr>)"
  define c1 where "c1 = ([1 / 4 :: real], \<lparr>BvB = (0, 0, 0), WrWB = (1, 1, 1), qBW = quaternion_identity\<rparr>)"
  define c2 where "c2 = ([1 / 8 :: real], \<lparr>BvB = (0, 0, 0), WrWB = (2, 2, 2), qBW = quaternion_identity\<rparr>)"
  define c3 where "c3 = ([1 / 16 :: real], \<lparr>BvB = (0, 0, 0), WrWB = (3, 3, 3), qBW = \<lparr>qw = 0, qx = 1, qy = 0, qz = 0\<rparr>\<rparr>)"
  define t where "t = \<lparr>BvB = (0, 0, 0), WrWB = (4, 4, 4), qBW = quaternion_identity\<rparr>"
  note m = new_no_params [folded m_def]
  have z: "velocity_to_consider_static z = 1 / 10"
    "healthy_feature_pixel_cov_area_increment z = 0"
    "feature_pixel_cov_area_median (last_safe_pose z) = 0"
    by (simp_all add: z_def RovioHealthMonitor_new_def no_params_def param_def
          RovioFailsafePose_init_def)
  have med: "median_of (fst c1) = 1 / 4" "median_of (fst c2) = 1 / 8" "median_of (fst c3) = 1 / 16"
    by (simp_all add: c1_def c2_def c3_def)
  have f: "float_sub (1 / 4) 0 = Finite (1 / 4)" "float_sub (1 / 8) (1 / 4) = Finite (- (1 / 8))"
    "float_sub (1 / 16) (1 / 8) = Finite (- (1 / 16))" "float_sub (1 / 2) 0 = Finite (1 / 2)"
    using to_float32_dyadic [of 1 2] to_float32_dyadic [of "- 1" 3]
      to_float32_dyadic [of "- 1" 4] to_float32_dyadic [of 1 1]
    by (simp_all add: float_sub_def)
  have h: "\<forall>c\<in>set [c1, c2, c3]. \<not> unhealthy m c"
    unfolding c1_def c2_def c3_def by (simp add: healthy_at_rest m)
  have a: "[c1, c2, c3] \<noteq> [] \<and>
    (\<forall>c\<in>set [c1, c2, c3]. \<not> unhealthy m c) \<and>
    (\<forall>c\<in>set [c1, c2, c3]. median_of (fst c) < healthy_feature_pixel_cov_area m) \<and>
    float_lt
      (float_abs (float_sub (median_of (fst (hd [c1, c2, c3])))
         (feature_pixel_cov_area_median (last_safe_pose m))))
      (healthy_feature_pixel_cov_area_increment m) \<and>
    (\<forall>i. Suc i < length [c1, c2, c3] \<longrightarrow>
       float_lt
         (float_abs (float_sub (median_of (fst ([c1, c2, c3] ! Suc i)))
            (median_of (fst ([c1, c2, c3] ! i)))))
         (healthy_feature_pixel_cov_area_increment m))"
  proof (intro conjI allI impI)
    show "[c1, c2, c3] \<noteq> []" by simp
    show "\<forall>c\<in>set [c1, c2, c3]. \<not> unhealthy m c" by (rule h)
    show "\<forall>c\<in>set [c1, c2, c3]. median_of (fst c) < healthy_feature_pixel_cov_area m"
      by (simp add: med m)
    show "float_lt
      (float_abs (float_sub (median_of (fst (hd [c1, c2, c3])))
         (feature_pixel_cov_area_median (last_safe_pose m))))
      (healthy_feature_pixel_cov_area_increment m)"
      using f(1) by (simp add: med m RovioFailsafePose_init_def)
  next
    fix i assume "Suc i < length [c1, c2, c3]"
    then have "i = 0 \<or> i = 1" by auto
    then show "float_lt
         (float_abs (float_sub (median_of (fst ([c1, c2, c3] ! Suc i)))
            (median_of (fst ([c1, c2, c3] ! i)))))
         (healthy_feature_pixel_cov_area_increment m)"
      using f(2,3) by (auto simp: med m)
  qed
  have b: "\<not> unhealthy m ([1 / 2], t) \<and>
    \<not> float_lt
        (float_abs (float_sub (median_of [1 / 2]) (feature_pixel_cov_area_median (last_safe_pose m))))
        (healthy_feature_pixel_cov_area_increment m)"
    using f(4) by (simp add: t_def healthy_at_rest m RovioFailsafePose_init_def)
  have c: "\<not> unhealthy z ([], t) \<and>
    \<not> float_lt
        (float_abs (float_sub (median_of []) (feature_pixel_cov_area_median (last_safe_pose z))))
        (healthy_feature_pixel_cov_area_increment z)"
    by (simp add: t_def healthy_at_rest z median_of_def)
  have 1: "last_safe_pose (final_monitor m [c1, c2, c3]) =
     \<lparr>failsafe_WrWB = (3, 3, 3), failsafe_qBW = \<lparr>qw = 0, qx = 1, qy = 0, qz = 0\<rparr>,
      feature_pixel_cov_area_median = 1 / 16\<rparr>"
    using failsafe_retention [of "[c1, c2, c3]" m "[1 / 2]" t] a by (simp add: med) (simp add: c3_def)
  have 2: "last_safe_pose (monitor (shouldResetEstimator [1 / 2] t m)) = last_safe_pose m"
    using failsafe_retention [of "[c1, c2, c3]" m "[1 / 2]" t] b by blast
  have 3: "last_safe_pose (monitor (shouldResetEstimator [] t z)) = last_safe_pose z"
    using failsafe_retention [of "[c1, c2, c3]" z "[]" t] c by blast
  show ?thesis
    using 1 2 3 unfolding m_def z_def c1_def c2_def c3_def t_def by blast
qed

text \<open>
  Both changes are needed. The comparison of line 115 is against the retained median, not
  against the previous cycle: on a new monitor (retained median 0, increment 0.3, healthy
  bound 1.0) the healthy cycles with medians 0.75 and 0.5 are both rejected and the retained
  pose is still the initial one. And the difference is rounded: with an increment of 0.25 and
  a retained median of 0.125, the healthy cycles with medians 0.25 and \<open>2^-28\<close> decrease,
  and all exact differences are below 0.25, but the single-precision difference of the
  second one rounds to 0.25 and the pose of the first cycle is kept.
\<close>

theorem failsafe_retention_counterexample:
  "\<not> unhealthy (RovioHealthMonitor_new no_params) ([3 / 4], \<lparr>BvB = (0, 0, 0), WrWB = (1, 1, 1), qBW = quaternion_identity\<rparr>) \<and>
   \<not> unhealthy (RovioHealthMonitor_new no_params) ([1 / 2], \<lparr>BvB = (0, 0, 0), WrWB = (2, 2, 2), qBW = quaternion_identity\<rparr>) \<and>
   median_of [1 / 2] < median_of [3 / 4] \<and>
   median_of [3 / 4] < healthy_feature_pixel_cov_area (RovioHealthMonitor_new no_params) \<and>
   median_of [3 / 4] - median_of [1 / 2] <
     healthy_feature_pixel_cov_area_increment (RovioHealthMonitor_new no_params) \<and>
   last_safe_pose (final_monitor (RovioHealthMonitor_new no_params)
     [([3 / 4], \<lparr>BvB = (0, 0, 0), WrWB = (1, 1, 1), qBW = quaternion_identity\<rparr>),
      ([1 / 2], \<lparr>BvB = (0, 0, 0), WrWB = (2, 2, 2), qBW = quaternion_identity\<rparr>)]) =
     \<lparr>failsafe_WrWB = (0, 0, 0), failsafe_qBW = quaternion_identity,
      feature_pixel_cov_area_median = 0\<rparr> \<and>
   \<not> unhealthy
      (monitor (shouldResetEstimator [1 / 8]
        \<lparr>BvB = (0, 0, 0), WrWB = (1, 1, 1), qBW = quaternion_identity\<rparr>
        (RovioHealthMonitor_new (no_params\<lparr>p_healthy_feature_pixel_cov_area_increment := Some (1 / 4)\<rparr>))))
      ([1 / 4], \<lparr>BvB = (0, 0, 0), WrWB = (2, 2, 2), qBW = quaternion_identity\<rparr>) \<and>
   \<not> unhealthy
      (monitor (shouldResetEstimator [1 / 8]
        \<lparr>BvB = (0, 0, 0), WrWB = (1, 1, 1), qBW = quaternion_identity\<rparr>
        (RovioHealthMonitor_new (no_params\<lparr>p_healthy_feature_pixel_cov_area_increment := Some (1 / 4)\<rparr>))))
      ([1 / 2 ^ 28], \<lparr>BvB = (0, 0, 0), WrWB = (3, 3, 3), qBW = quaternion_identity\<rparr>) \<and>
   median_of [1 / 2 ^ 28] < median_of [1 / 4] \<and>
   median_of [1 / 4] < healthy_feature_pixel_cov_area
      (monitor (shouldResetEstimator [1 / 8]
        \<lparr>BvB = (0, 0, 0), WrWB = (1, 1, 1), qBW = quaternion_identity\<rparr>
        (RovioHealthMonitor_new (no_params\<lparr>p_healthy_feature_pixel_cov_area_increment := Some (1 / 4)\<rparr>)))) \<and>
   \<bar>median_of [1 / 4] - feature_pixel_cov_area_median (last_safe_pose
      (monitor (shouldResetEstimator [1 / 8]
        \<lparr>BvB = (0, 0, 0), WrWB = (1, 1, 1), qBW = quaternion_identity\<rparr>
        (RovioHealthMonitor_new (no_params\<lparr>p_healthy_feature_pixel_cov_area_increment := Some (1 / 4)\<rparr>)))))\<bar> <
     healthy_feature_pixel_cov_area_increment
      (monitor (shouldResetEstimator [1 / 8]
        \<lparr>BvB = (0, 0, 0), WrWB = (1, 1, 1), qBW = quaternion_identity\<rparr>
        (RovioHealthMonitor_new (no_params\<lparr>p_healthy_feature_pixel_cov_area_increment := Some (1 / 4)\<rparr>)))) \<and>
   median_of [1 / 4] - median_of [1 / 2 ^ 28] <
     healthy_feature_pixel_cov_area_increment
      (monitor (shouldResetEstimator [1 / 8]
        \<lparr>BvB = (0, 0, 0), WrWB = (1, 1, 1), qBW = quaternion_identity\<rparr>
        (RovioHealthMonitor_new (no_params\<lparr>p_healthy_feature_pixel_cov_area_increment := Some (1 / 4)\<rparr>)))) \<and>
   last_safe_pose (final_monitor
      (monitor (shouldResetEstimator [1 / 8]
        \<lparr>BvB = (0, 0, 0), WrWB = (1, 1, 1), qBW = quaternion_identity\<rparr>
        (RovioHealthMonitor_new (no_params\<lparr>p_healthy_feature_pixel_cov_area_increment := Some (1 / 4)\<rparr>))))
     [([1 / 4], \<lparr>BvB = (0, 0, 0), WrWB = (2, 2, 2), qBW = quaternion_identity\<rparr>),
      ([1 / 2 ^ 28], \<lparr>BvB = (0, 0, 0), WrWB = (3, 3, 3), qBW = quaternion_identity\<rparr>)]) =
     \<lparr>failsafe_WrWB = (2, 2, 2), failsafe_qBW = quaternion_identity,
      feature_pixel_cov_area_median = 1 / 4\<rparr>"
proof -
  define m where "m = RovioHealthMonitor_new no_params"
  define q where "q = RovioHealthMonitor_new (no_params\<lparr>p_healthy_feature_pixel_cov_area_increment := Some (1 / 4)\<rparr>)"
  define s1 where "s1 = \<lparr>BvB = (0, 0, 0), WrWB = (1, 1, 1), qBW = quaternion_identity\<rparr>"
  define s2 where "s2 = \<lparr>BvB = (0, 0, 0), WrWB = (2, 2, 2), qBW = quaternion_identity\<rparr>"
  define s3 where "s3 = \<lparr>BvB = (0, 0, 0), WrWB = (3, 3, 3), qBW = quaternion_identity\<rparr>"
  define a :: real where "a = 1 / 2 ^ 28"
  define q1 where "q1 = monitor (shouldResetEstimator [1 / 8] s1 q)"
  note m = new_no_params [folded m_def]
  have q: "velocity_to_consider_static q = 1 / 10" "healthy_feature_pixel_cov_area q = 1"
    "healthy_feature_pixel_cov_area_increment q = 1 / 4"
    "last_safe_pose q = RovioFailsafePose_init"
    by (simp_all add: q_def RovioHealthMonitor_new_def no_params_def param_def)
  have a: "0 < a" "a < 1 / 4" "a < 1" by (simp_all add: a_def)
  have f: "to_float32 (3 / 4) = Finite (3 / 4)" "to_float32 (1 / 2) = Finite (1 / 2)"
    "to_float32 (1 / 8) = Finite (1 / 8)"
    using to_float32_dyadic [of 3 2] to_float32_dyadic [of 1 1] to_float32_dyadic [of 1 3]
    by simp_all
  have g: "float_sub (1 / 4) (1 / 8) = Finite (1 / 8)"
    using f(3) by (simp add: float_sub_def)
  have fd: "float_sub a (1 / 4) = Finite (- (1 / 4))"
    unfolding a_def float_sub_def by (rule to_float32_minus_quarter_less)
  have h: "\<not> unhealthy m (xs, s1)" "\<not> unhealthy m (xs, s2)" for xs
    unfolding s1_def s2_def by (rule healthy_at_rest, simp add: m)+
  have 1: "median_of [1 / 2] < median_of [3 / 4]"
    and 2: "median_of [3 / 4] < healthy_feature_pixel_cov_area m"
    and 3: "median_of [3 / 4] - median_of [1 / 2] < healthy_feature_pixel_cov_area_increment m"
    by (simp_all add: m)
  have p1: "last_safe_pose (monitor (shouldResetEstimator [3 / 4] s1 m)) = last_safe_pose m"
    using step_healthy(3) [OF h(1) [of "[3 / 4]"]] f
    by (simp add: m RovioFailsafePose_init_def)
  have k1: "healthy_feature_pixel_cov_area (monitor (shouldResetEstimator [3 / 4] s1 m)) = 1"
    "healthy_feature_pixel_cov_area_increment (monitor (shouldResetEstimator [3 / 4] s1 m)) = 3 / 10"
    by (simp_all add: thresholds_kept m)
  have h2: "\<not> unhealthy (monitor (shouldResetEstimator [3 / 4] s1 m)) ([1 / 2], s2)"
    using h(2) by simp
  have "last_safe_pose (final_monitor m [([3 / 4], s1), ([1 / 2], s2)]) = last_safe_pose m"
    using step_healthy(3) [OF h2] f by (simp add: p1 k1 m RovioFailsafePose_init_def)
  then have 4: "last_safe_pose (final_monitor m [([3 / 4], s1), ([1 / 2], s2)]) =
      \<lparr>failsafe_WrWB = (0, 0, 0), failsafe_qBW = quaternion_identity,
       feature_pixel_cov_area_median = 0\<rparr>"
    by (simp add: m RovioFailsafePose_init_def)
  have hq: "\<not> unhealthy q (xs, s1)" for xs
    unfolding s1_def by (rule healthy_at_rest) (simp add: q)
  have r1: "last_safe_pose q1 =
      \<lparr>failsafe_WrWB = (1, 1, 1), failsafe_qBW = quaternion_identity,
       feature_pixel_cov_area_median = 1 / 8\<rparr>"
    using step_healthy(3) [OF hq [of "[1 / 8]"]] f
    by (simp add: q1_def q RovioFailsafePose_init_def s1_def)
  have k: "velocity_to_consider_static q1 = 1 / 10" "healthy_feature_pixel_cov_area q1 = 1"
    "healthy_feature_pixel_cov_area_increment q1 = 1 / 4"
    by (simp_all add: q1_def thresholds_kept q)
  have 5: "\<not> unhealthy q1 ([1 / 4], s2)"
    unfolding s2_def by (rule healthy_at_rest) (simp add: k)
  have 6: "\<not> unhealthy q1 ([a], s3)"
    unfolding s3_def by (rule healthy_at_rest) (simp add: k)
  have 7: "median_of [a] < median_of [1 / 4]"
    and 8: "median_of [1 / 4] < healthy_feature_pixel_cov_area q1"
    and 9: "\<bar>median_of [1 / 4] - feature_pixel_cov_area_median (last_safe_pose q1)\<bar> <
              healthy_feature_pixel_cov_area_increment q1"
    and 10: "median_of [1 / 4] - median_of [a] < healthy_feature_pixel_cov_area_increment q1"
    using a by (simp_all add: k r1)
  define q2 where "q2 = monitor (shouldResetEstimator [1 / 4] s2 q1)"
  have r2: "last_safe_pose q2 =
      \<lparr>failsafe_WrWB = (2, 2, 2), failsafe_qBW = quaternion_identity,
       feature_pixel_cov_area_median = 1 / 4\<rparr>"
    using step_healthy(3) [OF 5] g by (simp add: q2_def k r1 s2_def)
  have k2: "healthy_feature_pixel_cov_area q2 = 1"
    "healthy_feature_pixel_cov_area_increment q2 = 1 / 4"
    by (simp_all add: q2_def thresholds_kept k)
  have h3: "\<not> unhealthy q2 ([a], s3)" using 6 by (simp add: q2_def)
  have "last_safe_pose (monitor (shouldResetEstimator [a] s3 q2)) = last_safe_pose q2"
    using step_healthy(3) [OF h3] by (simp add: k2 r2 fd)
  then have 11: "last_safe_pose (final_monitor q1 [([1 / 4], s2), ([a], s3)]) =
      \<lparr>failsafe_WrWB = (2, 2, 2), failsafe_qBW = quaternion_identity,
       feature_pixel_cov_area_median = 1 / 4\<rparr>"
    by (simp add: q2_def [symmetric] r2)
  show ?thesis
    using h(1) [of "[3 / 4]"] h(2) [of "[1 / 2]"] 1 2 3 4 5 6 7 8 9 10 11
    unfolding q1_def m_def q_def s1_def s2_def s3_def a_def by blast
qed

text \<open>
  C9. An unhealthy cycle, whether the call returns true or false, leaves the retained
  failsafe pose (position, orientation and median) as it was.
\<close>

theorem unhealthy_keeps_failsafe:
  assumes "unhealthy m (xs, out)"
  shows "last_safe_pose (monitor (shouldResetEstimator xs out m)) = last_safe_pose m \<and>
         get_failsafe_WrWB (monitor (shouldResetEstimator xs out m)) = get_failsafe_WrWB m \<and>
         get_failsafe_qBW (monitor (shouldResetEstimator xs out m)) = get_failsafe_qBW m"
  using step_unhealthy(1) [OF assms] by (simp add: get_failsafe_WrWB_def get_failsafe_qBW_def)

theorem unhealthy_keeps_failsafe_witness:
  "unhealthy ((RovioHealthMonitor_new no_params)\<lparr>num_subsequent_unhealthy_updates := 2\<rparr>)
     ([0.125], \<lparr>BvB = (7, 0, 0), WrWB = (1, 2, 3), qBW = \<lparr>qw = 0, qx = 1, qy = 0, qz = 0\<rparr>\<rparr>) \<and>
   result (shouldResetEstimator [0.125]
     \<lparr>BvB = (7, 0, 0), WrWB = (1, 2, 3), qBW = \<lparr>qw = 0, qx = 1, qy = 0, qz = 0\<rparr>\<rparr>
     ((RovioHealthMonitor_new no_params)\<lparr>num_subsequent_unhealthy_updates := 2\<rparr>)) \<and>
   last_safe_pose (monitor (shouldResetEstimator [0.125]
     \<lparr>BvB = (7, 0, 0), WrWB = (1, 2, 3), qBW = \<lparr>qw = 0, qx = 1, qy = 0, qz = 0\<rparr>\<rparr>
     ((RovioHealthMonitor_new no_params)\<lparr>num_subsequent_unhealthy_updates := 2\<rparr>))) =
     RovioFailsafePose_init"
  using unhealthy_keeps_failsafe [of
     "(RovioHealthMonitor_new no_params)\<lparr>num_subsequent_unhealthy_updates := 2\<rparr>" "[0.125]"
     "\<lparr>BvB = (7, 0, 0), WrWB = (1, 2, 3), qBW = \<lparr>qw = 0, qx = 1, qy = 0, qz = 0\<rparr>\<rparr>"]
  by (simp add: unhealthy_iff RovioHealthMonitor_new_def no_params_def param_def BvB_norm_x
        median_of_def nth_element_def shouldResetEstimator_def Let_def)

section \<open>The enabled flag\<close>

text \<open>
  C10. The method never reads or writes \<open>enabled\<close>: two monitors that differ in that flag
  only give, on the same sequence of calls, the same return values, messages, counters and
  retained poses, and the flag keeps its value.
\<close>

theorem enabled_flag_ignored:
  "cycles (m\<lparr>enabled := b\<rparr>) cs =
     map (\<lambda>r. r\<lparr>monitor := (monitor r)\<lparr>enabled := b\<rparr>\<rparr>) (cycles m cs) \<and>
   map result (cycles (m\<lparr>enabled := b\<rparr>) cs) = map result (cycles m cs) \<and>
   map (\<lambda>r. num_subsequent_unhealthy_updates (monitor r)) (cycles (m\<lparr>enabled := b\<rparr>) cs) =
     map (\<lambda>r. num_subsequent_unhealthy_updates (monitor r)) (cycles m cs) \<and>
   map (\<lambda>r. last_safe_pose (monitor r)) (cycles (m\<lparr>enabled := b\<rparr>) cs) =
     map (\<lambda>r. last_safe_pose (monitor r)) (cycles m cs) \<and>
   final_monitor (m\<lparr>enabled := b\<rparr>) cs = (final_monitor m cs)\<lparr>enabled := b\<rparr> \<and>
   enabled (final_monitor m cs) = enabled m"
proof -
  have run: "cycles (m\<lparr>enabled := b\<rparr>) cs =
               map (\<lambda>r. r\<lparr>monitor := (monitor r)\<lparr>enabled := b\<rparr>\<rparr>) (cycles m cs)"
    by (induction cs arbitrary: m) (simp_all add: Let_def step_enabled)
  have fin: "final_monitor (m\<lparr>enabled := b\<rparr>) cs = (final_monitor m cs)\<lparr>enabled := b\<rparr>"
    by (induction cs arbitrary: m) (simp_all add: step_enabled)
  show ?thesis
    by (simp add: run fin comp_def)
qed

end
